theory Spec2Isabelle
  imports Main
begin

section \<open>Voice-Tone-Analyzer: the application controller and the analysis client\<close>

text \<open>
  A shallow embedding of the top-level React component \<open>App\<close>, of the tab logic of
  \<open>AudioUploader\<close> and of the service function \<open>analyzeVoiceTone\<close>.

  \<^item> The component's \<open>useState\<close> cells, its two \<open>useRef\<close> cells, the browser's
    \<open>localStorage\<close> and the blob-URL store form one record \<open>app\<close>; every handler is a
    function from \<open>app\<close> to \<open>app\<close>.
  \<^item> What a handler does to the outside world (a cue, a console line, the remote call,
    a call on the recorder or the stream) is appended to the field \<open>effects\<close>.
  \<^item> What the outside world answers (the permission prompt, the remote endpoint, the
    helper \<open>fileToBase64\<close>, the URL minted by \<open>URL.createObjectURL\<close>) is a parameter
    of the handler.
  \<^item> A JavaScript exception is a value of type \<open>js_thrown\<close>; a function that may throw
    returns \<open>js_thrown + 'a\<close>.
  \<^item> \<open>handleStartRecording\<close> is two functions, one for the code before its \<open>await\<close>
    and one for the code after it, so that other handlers can run in between; the
    recorder's \<open>ondataavailable\<close> and \<open>onstop\<close> handlers are functions of their own, since
    the browser runs them later. \<open>handleAnalyze\<close> is one function: it runs from its call
    to its end, the answers it awaits being parameters.
  \<^item> A JavaScript string is a \<open>string\<close> whose characters are code units below 256.
\<close>

subsection \<open>Strings\<close>

text \<open>\<open>String.prototype.trim\<close>: white space and line terminators below 256.\<close>

definition isWhiteSpace :: "char \<Rightarrow> bool" where
  "isWhiteSpace c = ((of_char c :: nat) \<in> {9, 10, 11, 12, 13, 32, 160})"

definition trim :: "string \<Rightarrow> string" where
  "trim s = rev (dropWhile isWhiteSpace (rev (dropWhile isWhiteSpace s)))"

text \<open>\<open>String.prototype.toLowerCase\<close> on code units below 256: A-Z, and the Latin-1
  capitals except the multiplication sign.\<close>

definition lowerChar :: "char \<Rightarrow> char" where
  "lowerChar c =
     (let n = (of_char c :: nat)
      in if (65 \<le> n \<and> n \<le> 90) \<or> (192 \<le> n \<and> n \<le> 222 \<and> n \<noteq> 215)
         then char_of (n + 32) else c)"

definition toLowerCase :: "string \<Rightarrow> string" where
  "toLowerCase s = map lowerChar s"

text \<open>\<open>s.startsWith(p)\<close>.\<close>

definition startsWith :: "string \<Rightarrow> string \<Rightarrow> bool" where
  "startsWith s p = (take (length p) s = p)"

text \<open>\<open>s.includes(p)\<close>: \<open>p\<close> occurs in \<open>s\<close> as a contiguous substring.\<close>

fun includes_str :: "string \<Rightarrow> string \<Rightarrow> bool" where
  "includes_str [] p = (p = [])"
| "includes_str (c # cs) p = (startsWith (c # cs) p \<or> includes_str cs p)"

text \<open>\<open>s.split(sep)\<close> for a one-character separator; the result is never empty.\<close>

fun split :: "char \<Rightarrow> string \<Rightarrow> string list" where
  "split sep [] = [[]]"
| "split sep (c # cs) =
     (if c = sep then [] # split sep cs
      else (case split sep cs of [] \<Rightarrow> [[c]] | x # xs \<Rightarrow> (c # x) # xs))"

text \<open>An array read \<open>xs[i]\<close>; out of range it is \<open>undefined\<close>, here \<open>None\<close>.\<close>

definition at_index :: "'a list \<Rightarrow> nat \<Rightarrow> 'a option" where
  "at_index xs i = (if i < length xs then Some (xs ! i) else None)"

text \<open>A template literal prints \<open>undefined\<close> as the word.\<close>

definition templ :: "string option \<Rightarrow> string" where
  "templ v = (case v of None \<Rightarrow> ''undefined'' | Some s \<Rightarrow> s)"

subsection \<open>Data\<close>

text \<open>A thrown value: an instance of \<open>Error\<close> with its message, or anything else.\<close>

datatype js_thrown = JsError string | NonError

text \<open>A \<open>Blob\<close> is its bytes and its media type; a \<open>File\<close> is a \<open>Blob\<close> with a name.\<close>

record blob =
  bytes :: "nat list"
  type :: string

record js_file = blob +
  name :: string

text \<open>What the \<open>Blob\<close> and \<open>File\<close> constructors do to the \<open>type\<close> option: a type with a
  character outside U+0020 to U+007E becomes the empty string, any other type is put in
  ASCII lower case.\<close>

definition asciiLower :: "char \<Rightarrow> char" where
  "asciiLower c =
     (let n = (of_char c :: nat) in if 65 \<le> n \<and> n \<le> 90 then char_of (n + 32) else c)"

definition normalizeType :: "string \<Rightarrow> string" where
  "normalizeType t =
     (if list_all (\<lambda>c. 32 \<le> (of_char c :: nat) \<and> (of_char c :: nat) \<le> 126) t
      then map asciiLower t else [])"

text \<open>\<open>new Blob(parts, {type: t})\<close> and \<open>new File([b], n, {type: t})\<close>.\<close>

definition newBlob :: "blob list \<Rightarrow> string \<Rightarrow> blob" where
  "newBlob parts t = \<lparr>bytes = concat (map bytes parts), type = normalizeType t\<rparr>"

definition newFile :: "blob \<Rightarrow> string \<Rightarrow> string \<Rightarrow> js_file" where
  "newFile b n t = \<lparr>bytes = bytes b, type = normalizeType t, name = n\<rparr>"

datatype recording_state = Inactive | Recording | Paused

text \<open>The \<open>MediaRecorder\<close> held by \<open>mediaRecorderRef\<close>: its \<open>state\<close> and \<open>mimeType\<close>
  attributes and the stream it was built on (a number names the stream).\<close>

record media_recorder =
  state :: recording_state
  mimeType :: string
  stream :: nat

datatype cue = SuccessCue | ErrorCue

datatype tab = Upload | Record

datatype effect =
    PlayAudioFeedback cue
  | ConsoleError string
  | GenerateContent string string string string
  | NewMediaRecorder nat
  | RecorderStart
  | RecorderStop
  | StopTracks nat

record app =
  audioFile :: "js_file option"
  isLoading :: bool
  analysisResult :: string
  error :: string
  apiKey :: string
  isKeySaved :: bool
  apiKeyError :: string
  isAudioFeedbackEnabled :: bool
  isRecording :: bool
  audioURL :: "string option"
  mediaRecorderRef :: "media_recorder option"
  audioChunksRef :: "blob list"
  activeTab :: tab
  localStorage :: "string \<rightharpoonup> string"
  blobURLs :: "string \<rightharpoonup> blob"
  effects :: "effect list"

text \<open>\<open>if (isAudioFeedbackEnabled) playAudioFeedback(kind)\<close>.\<close>

definition feedback :: "cue \<Rightarrow> app \<Rightarrow> app" where
  "feedback k s =
     (if isAudioFeedbackEnabled s then s\<lparr>effects := effects s @ [PlayAudioFeedback k]\<rparr> else s)"

definition emit :: "effect \<Rightarrow> app \<Rightarrow> app" where
  "emit e s = s\<lparr>effects := effects s @ [e]\<rparr>"

subsection \<open>The recorder and the audio source (\<open>App\<close>)\<close>

definition handleStopRecording :: "app \<Rightarrow> app" where
  "handleStopRecording s =
     (case mediaRecorderRef s of
        None \<Rightarrow> s
      | Some r \<Rightarrow>
          if state r = Recording
          then (emit RecorderStop s)
                 \<lparr>mediaRecorderRef := Some (r\<lparr>state := Inactive\<rparr>), isRecording := False\<rparr>
          else s)"

definition handleFileSelect :: "js_file option \<Rightarrow> app \<Rightarrow> app" where
  "handleFileSelect f s =
     (let s1 = s\<lparr>audioFile := f, analysisResult := [], error := [], audioURL := None\<rparr>
      in if mediaRecorderRef s \<noteq> None \<and> isRecording s then handleStopRecording s1 else s1)"

text \<open>What the browser answers to \<open>handleStartRecording\<close>: no \<open>getUserMedia\<close> at all;
  \<open>getUserMedia\<close> rejects; it resolves with a stream and \<open>new MediaRecorder\<close> throws; the
  recorder (with its \<open>mimeType\<close>) is built and \<open>start()\<close> throws; or the recorder starts.\<close>

datatype mic_outcome =
    Unsupported
  | Rejected js_thrown
  | CtorThrows nat js_thrown
  | StartThrows nat string js_thrown
  | Started nat string

definition MIC_DENIED :: string where
  "MIC_DENIED = ''Microphone access was denied. Please allow microphone access in your browser'' @ [CHR 0x27] @ ''s settings to use this feature.''"

definition MIC_UNSUPPORTED :: string where
  "MIC_UNSUPPORTED = ''Audio recording is not supported in this browser.''"

text \<open>\<open>if (isAudioFeedbackEnabled) playAudioFeedback(kind)\<close> in code that runs after an
  \<open>await\<close>: \<open>fb\<close> is the value of \<open>isAudioFeedbackEnabled\<close> that the closure holds, the one
  of the render in which the handler was called.\<close>

definition playIf :: "bool \<Rightarrow> cue \<Rightarrow> app \<Rightarrow> app" where
  "playIf fb k s = (if fb then s\<lparr>effects := effects s @ [PlayAudioFeedback k]\<rparr> else s)"

text \<open>The \<open>catch\<close> block of \<open>handleStartRecording\<close>.\<close>

definition micCatch :: "bool \<Rightarrow> app \<Rightarrow> app" where
  "micCatch fb s =
     playIf fb ErrorCue ((emit (ConsoleError ''Error accessing microphone:'') s)\<lparr>error := MIC_DENIED\<rparr>)"

text \<open>\<open>handleStartRecording\<close> up to its \<open>await\<close>: the four resets, then either the call
  of \<open>getUserMedia\<close>, on whose answer the handler waits, or, when the browser has no
  \<open>getUserMedia\<close> (\<open>supported\<close> is false), the \<open>else\<close> branch, which ends the handler.\<close>

definition startRecordingBegin :: "bool \<Rightarrow> app \<Rightarrow> app" where
  "startRecordingBegin supported s =
     (let s0 = s\<lparr>error := [], analysisResult := [], audioFile := None, audioURL := None\<rparr>
      in if supported then s0 else feedback ErrorCue (s0\<lparr>error := MIC_UNSUPPORTED\<rparr>))"

text \<open>\<open>handleStartRecording\<close> from the answer of \<open>getUserMedia\<close> to its end. Other handlers
  may have run since the first part; \<open>s\<close> is the state when the answer comes. Without
  \<open>getUserMedia\<close> there is no second part.\<close>

definition startRecordingResume :: "bool \<Rightarrow> mic_outcome \<Rightarrow> app \<Rightarrow> app" where
  "startRecordingResume fb outcome s =
     (case outcome of
        Unsupported \<Rightarrow> s
      | Rejected e \<Rightarrow> micCatch fb s
      | CtorThrows st e \<Rightarrow> micCatch fb s
      | StartThrows st mt e \<Rightarrow>
          micCatch fb ((emit (NewMediaRecorder st) s)
            \<lparr>mediaRecorderRef := Some \<lparr>state = Inactive, mimeType = mt, stream = st\<rparr>,
             audioChunksRef := []\<rparr>)
      | Started st mt \<Rightarrow>
          (emit RecorderStart (emit (NewMediaRecorder st) s))
            \<lparr>mediaRecorderRef := Some \<lparr>state = Recording, mimeType = mt, stream = st\<rparr>,
             audioChunksRef := [], isRecording := True\<rparr>)"

text \<open>\<open>handleStartRecording\<close> when nothing else runs between its two parts.\<close>

definition handleStartRecording :: "mic_outcome \<Rightarrow> app \<Rightarrow> app" where
  "handleStartRecording outcome s =
     startRecordingResume (isAudioFeedbackEnabled s) outcome
       (startRecordingBegin (outcome \<noteq> Unsupported) s)"

text \<open>The recorder's \<open>ondataavailable\<close> handler.\<close>

definition ondataavailable :: "blob \<Rightarrow> app \<Rightarrow> app" where
  "ondataavailable d s = s\<lparr>audioChunksRef := audioChunksRef s @ [d]\<rparr>"

text \<open>\<open>mediaRecorderRef.current?.mimeType || 'audio/webm'\<close>.\<close>

definition recorderMimeType :: "app \<Rightarrow> string" where
  "recorderMimeType s =
     (case mediaRecorderRef s of
        None \<Rightarrow> ''audio/webm''
      | Some r \<Rightarrow> if mimeType r = [] then ''audio/webm'' else mimeType r)"

text \<open>The file name \<open>`recording.${mimeType.split('/')[1]}`\<close>.\<close>

definition recordingName :: "string \<Rightarrow> string" where
  "recordingName mt = ''recording.'' @ templ (at_index (split (CHR ''/'') mt) 1)"

text \<open>The recorder's \<open>onstop\<close> handler. \<open>strm\<close> is the stream captured by the closure,
  \<open>url\<close> the string minted by \<open>URL.createObjectURL\<close>.\<close>

definition onstop :: "nat \<Rightarrow> string \<Rightarrow> app \<Rightarrow> app" where
  "onstop strm url s =
     (let mt = recorderMimeType s;
          audioBlob = newBlob (audioChunksRef s) mt;
          recordedFile = newFile audioBlob (recordingName mt) mt
      in emit (StopTracks strm)
           (s\<lparr>blobURLs := (blobURLs s)(url \<mapsto> audioBlob),
              audioURL := Some url, audioFile := Some recordedFile\<rparr>))"

definition handleClearRecording :: "app \<Rightarrow> app" where
  "handleClearRecording s = s\<lparr>audioURL := None, audioFile := None\<rparr>"

subsection \<open>The API key (\<open>App\<close>)\<close>

definition KEY_EMPTY :: string where
  "KEY_EMPTY = ''API key cannot be empty.''"

definition KEY_FORMAT :: string where
  "KEY_FORMAT = ''Invalid API key format. It should typically start with '' @ [CHR 0x22] @ ''AIza'' @ [CHR 0x22] @ ''.''"

text \<open>\<open>validateApiKey\<close> returns its verdict and the state with \<open>apiKeyError\<close> set.\<close>

definition validateApiKey :: "string \<Rightarrow> app \<Rightarrow> bool \<times> app" where
  "validateApiKey key s =
     (let trimmedKey = trim key
      in if trimmedKey = [] then (False, s\<lparr>apiKeyError := KEY_EMPTY\<rparr>)
         else if \<not> startsWith trimmedKey ''AIza'' then (False, s\<lparr>apiKeyError := KEY_FORMAT\<rparr>)
         else (True, s\<lparr>apiKeyError := []\<rparr>))"

definition handleApiKeySave :: "app \<Rightarrow> app" where
  "handleApiKeySave s =
     (case validateApiKey (apiKey s) s of
        (True, s1) \<Rightarrow>
          s1\<lparr>localStorage := (localStorage s1)(''GEMINI_API_KEY'' \<mapsto> apiKey s),
             isKeySaved := True, apiKeyError := []\<rparr>
      | (False, s1) \<Rightarrow> s1)"

definition handleApiKeyEdit :: "app \<Rightarrow> app" where
  "handleApiKeyEdit s = s\<lparr>isKeySaved := False, apiKeyError := []\<rparr>"

definition handleApiKeyChange :: "string \<Rightarrow> app \<Rightarrow> app" where
  "handleApiKeyChange v s =
     (let s1 = s\<lparr>apiKey := v\<rparr>
      in if apiKeyError s \<noteq> [] then s1\<lparr>apiKeyError := []\<rparr> else s1)"

subsection \<open>The analysis client (\<open>analyzeVoiceTone\<close>)\<close>

text \<open>What happens inside the \<open>try\<close> block: \<open>generateContent\<close> answers and
  \<open>response.text\<close> is read, or something is thrown there.\<close>

datatype remote_outcome = Responds string | Throws js_thrown

definition MSG_KEY_REQUIRED :: string where
  "MSG_KEY_REQUIRED = ''A valid Gemini API key is required to perform the analysis.''"

definition MSG_UNKNOWN :: string where
  "MSG_UNKNOWN = ''An unknown error occurred while communicating with the Gemini API.''"

definition MSG_INVALID_KEY :: string where
  "MSG_INVALID_KEY = ''The provided API key is not valid or lacks the necessary permissions. Please check your key and try again.''"

definition MSG_QUOTA :: string where
  "MSG_QUOTA = ''You have exceeded your API quota. Please check your usage and billing information with Google AI Studio.''"

definition MSG_BAD_REQUEST :: string where
  "MSG_BAD_REQUEST = ''The request was invalid. This may be due to a problem with the uploaded audio file or its format.''"

definition MSG_GENERIC :: string where
  "MSG_GENERIC = ''An error occurred during analysis. Please try again later.''"

text \<open>The local variable \<open>userFriendlyMessage\<close> at the end of the \<open>catch\<close> block.\<close>

definition userFriendlyMessage :: "js_thrown \<Rightarrow> string" where
  "userFriendlyMessage e =
     (case e of
        NonError \<Rightarrow> MSG_UNKNOWN
      | JsError m \<Rightarrow>
          (let message = toLowerCase m
           in if includes_str message ''api key not valid'' \<or> includes_str message ''permission denied''
              then MSG_INVALID_KEY
              else if includes_str message ''quota'' then MSG_QUOTA
              else if includes_str message ''400 bad request'' then MSG_BAD_REQUEST
              else MSG_GENERIC))"

text \<open>\<open>analyzeVoiceTone\<close> returns the effects it had and what it throws or returns.
  \<open>GenerateContent k m d t\<close> is the call of the remote endpoint with key \<open>k\<close>, model \<open>m\<close>,
  inline data \<open>d\<close> and media type \<open>t\<close> (the instruction text is a constant).\<close>

definition analyzeVoiceTone ::
  "remote_outcome \<Rightarrow> string \<Rightarrow> string \<Rightarrow> string \<Rightarrow> effect list \<times> (js_thrown + string)" where
  "analyzeVoiceTone remote base64Audio mt key =
     (if key = [] then ([], Inl (JsError MSG_KEY_REQUIRED))
      else case remote of
             Responds txt \<Rightarrow>
               ([GenerateContent key ''gemini-2.5-pro'' base64Audio mt], Inr (trim txt))
           | Throws e \<Rightarrow>
               ([GenerateContent key ''gemini-2.5-pro'' base64Audio mt,
                 ConsoleError ''Gemini API Request Failed: Full error object:''],
                Inl (JsError (userFriendlyMessage e))))"

subsection \<open>Analyze and the examples (\<open>App\<close>)\<close>

definition MSG_MISSING_INPUT :: string where
  "MSG_MISSING_INPUT = ''Please select or record an audio file first.''"

definition MSG_MISSING_KEY :: string where
  "MSG_MISSING_KEY = ''Please enter and save your Gemini API key before analyzing.''"

definition MSG_INVALID_TYPE :: string where
  "MSG_INVALID_TYPE = ''Invalid file type. Please upload an audio file.''"

definition MSG_UNEXPECTED :: string where
  "MSG_UNEXPECTED = ''An unexpected error occurred. Please try again.''"

text \<open>\<open>!!process.env.API_KEY\<close>; the variable is \<open>None\<close> when it is not defined.\<close>

definition isEnvKeySet :: "string option \<Rightarrow> bool" where
  "isEnvKeySet env = (case env of None \<Rightarrow> False | Some k \<Rightarrow> k \<noteq> [])"

text \<open>The \<open>try\<close> block of \<open>handleAnalyze\<close>: the state it reaches and what it throws, if
  anything. \<open>f2b\<close> is the helper \<open>fileToBase64\<close>, which this component imports.\<close>

definition analyzeTry ::
  "(js_file \<Rightarrow> js_thrown + string \<times> string) \<Rightarrow> remote_outcome \<Rightarrow> js_file \<Rightarrow> string \<Rightarrow> app
     \<Rightarrow> app \<times> js_thrown option" where
  "analyzeTry f2b remote f key s =
     (case f2b f of
        Inl e \<Rightarrow> (s, Some e)
      | Inr (base64, mt) \<Rightarrow>
          if \<not> startsWith mt ''audio/'' then (s, Some (JsError MSG_INVALID_TYPE))
          else (case analyzeVoiceTone remote base64 mt key of
                  (effs, Inl e) \<Rightarrow> (s\<lparr>effects := effects s @ effs\<rparr>, Some e)
                | (effs, Inr result) \<Rightarrow>
                    (feedback SuccessCue
                       (s\<lparr>effects := effects s @ effs, analysisResult := result\<rparr>), None)))"

text \<open>The local constant \<open>finalApiKey\<close> of \<open>handleAnalyze\<close>:
  \<open>isEnvKeySet ? process.env.API_KEY! : apiKey\<close>.\<close>

definition finalApiKey :: "string option \<Rightarrow> app \<Rightarrow> string" where
  "finalApiKey env s =
     (case env of None \<Rightarrow> apiKey s | Some k \<Rightarrow> if isEnvKeySet env then k else apiKey s)"

definition handleAnalyze ::
  "string option \<Rightarrow> (js_file \<Rightarrow> js_thrown + string \<times> string) \<Rightarrow> remote_outcome \<Rightarrow> app \<Rightarrow> app" where
  "handleAnalyze env f2b remote s =
     (case audioFile s of
        None \<Rightarrow> feedback ErrorCue (s\<lparr>error := MSG_MISSING_INPUT\<rparr>)
      | Some f \<Rightarrow>
          (let key = finalApiKey env s
           in if key = [] then feedback ErrorCue (s\<lparr>error := MSG_MISSING_KEY\<rparr>)
              else
                (let s1 = s\<lparr>isLoading := True, analysisResult := [], error := []\<rparr>;
                     s2 = (case analyzeTry f2b remote f key s1 of
                             (s', None) \<Rightarrow> s'
                           | (s', Some err) \<Rightarrow>
                               feedback ErrorCue
                                 (s'\<lparr>error := (case err of JsError m \<Rightarrow> m | NonError \<Rightarrow> MSG_UNEXPECTED)\<rparr>))
                 in s2\<lparr>isLoading := False\<rparr>)))"

definition handleExampleClick :: "string \<Rightarrow> app \<Rightarrow> app" where
  "handleExampleClick resultText s =
     feedback SuccessCue ((handleFileSelect None s)\<lparr>analysisResult := resultText\<rparr>)"

subsection \<open>The tabs (\<open>AudioUploader\<close>)\<close>

text \<open>\<open>audioURL || isRecording\<close>: a string is truthy when it is not empty.\<close>

definition truthy :: "string option \<Rightarrow> bool" where
  "truthy u = (case u of None \<Rightarrow> False | Some v \<Rightarrow> v \<noteq> [])"

text \<open>\<open>handleTabChange\<close> reads the props \<open>file\<close>, \<open>audioURL\<close> and \<open>isRecording\<close> of the
  render it belongs to, that is, of \<open>s\<close>.\<close>

definition handleTabChange :: "tab \<Rightarrow> app \<Rightarrow> app" where
  "handleTabChange t s =
     (let s1 = (if t = Record \<and> audioFile s \<noteq> None then handleFileSelect None s else s);
          s2 = (if t = Upload \<and> (truthy (audioURL s) \<or> isRecording s)
                then handleClearRecording (handleStopRecording s1) else s1)
      in s2\<lparr>activeTab := t\<rparr>)"

subsection \<open>Sequences of calls\<close>

text \<open>The state of the first render when the initialiser of \<open>isAudioFeedbackEnabled\<close>
  yields \<open>fb\<close>; \<open>ls\<close> is the content of \<open>localStorage\<close>.\<close>

definition initialApp :: "bool \<Rightarrow> (string \<rightharpoonup> string) \<Rightarrow> app" where
  "initialApp fb ls =
     \<lparr>audioFile = None, isLoading = False, analysisResult = [], error = [], apiKey = [],
      isKeySaved = False, apiKeyError = [], isAudioFeedbackEnabled = fb, isRecording = False,
      audioURL = None, mediaRecorderRef = None, audioChunksRef = [], activeTab = Upload,
      localStorage = ls, blobURLs = Map.empty, effects = []\<rparr>"

text \<open>The initialiser \<open>savedPreference ? JSON.parse(savedPreference) : true\<close>.
  \<open>parse v\<close> is the truth value of what \<open>JSON.parse(v)\<close> returns, \<open>None\<close> when it throws.\<close>

definition initialFeedback :: "(string \<Rightarrow> bool option) \<Rightarrow> (string \<rightharpoonup> string) \<Rightarrow> bool option" where
  "initialFeedback parse ls =
     (case ls ''AUDIO_FEEDBACK_ENABLED'' of
        None \<Rightarrow> Some True
      | Some v \<Rightarrow> if v = [] then Some True else parse v)"

text \<open>The effect that runs once after the first render: without a key in the
  environment, a key saved in \<open>localStorage\<close> is loaded and marked as saved.\<close>

definition mount :: "string option \<Rightarrow> app \<Rightarrow> app" where
  "mount env s =
     (if \<not> isEnvKeySet env
      then (case localStorage s ''GEMINI_API_KEY'' of
              None \<Rightarrow> s
            | Some savedKey \<Rightarrow>
                if savedKey \<noteq> [] then s\<lparr>apiKey := savedKey, isKeySaved := True\<rparr> else s)
      else s)"

text \<open>The state in which the application starts: first render, then the effect. There is
  none when \<open>JSON.parse\<close> throws.\<close>

definition startApp ::
  "(string \<Rightarrow> bool option) \<Rightarrow> string option \<Rightarrow> (string \<rightharpoonup> string) \<Rightarrow> app option" where
  "startApp parse env ls =
     (case initialFeedback parse ls of
        None \<Rightarrow> None
      | Some fb \<Rightarrow> Some (mount env (initialApp fb ls)))"

text \<open>\<open>toggleAudioFeedback\<close>; \<open>JSON.stringify\<close> of a boolean is \<open>true\<close> or \<open>false\<close>.\<close>

definition toggleAudioFeedback :: "app \<Rightarrow> app" where
  "toggleAudioFeedback s =
     (let newState = \<not> isAudioFeedbackEnabled s
      in s\<lparr>isAudioFeedbackEnabled := newState,
           localStorage := (localStorage s)
             (''AUDIO_FEEDBACK_ENABLED'' \<mapsto> (if newState then ''true'' else ''false''))\<rparr>)"

text \<open>A call from the user interface, a part of \<open>handleStartRecording\<close>, or an event of
  a recorder.
  \<^item> \<open>StartRecording\<close> is \<open>handleStartRecording\<close> run in one piece;
    \<open>StartRecordingBegin\<close> and \<open>StartRecordingResume\<close> are its two parts, between which
    other calls may come.
  \<^item> \<open>DataAvailable\<close> is the \<open>dataavailable\<close> event of any recorder built so far: the
    handler of each of them appends to \<open>audioChunksRef.current\<close>.
  \<^item> \<open>OnStop\<close> is the \<open>stop\<close> event of the recorder held by \<open>mediaRecorderRef\<close>, whose
    closure holds that recorder's stream; \<open>OnStopOf n\<close> is the \<open>stop\<close> event of a recorder
    built earlier, on stream \<open>n\<close>, whose closure still holds stream \<open>n\<close>.
  The recorder events happen only once a recorder exists; they may then come at any
  time, which covers every schedule of the browser.\<close>

datatype call =
    SelectFile "js_file option"
  | StartRecording mic_outcome
  | StartRecordingBegin bool
  | StartRecordingResume bool mic_outcome
  | StopRecording
  | DataAvailable blob
  | OnStop string
  | OnStopOf nat string
  | ClearRecording
  | TabChange tab

fun exec :: "call \<Rightarrow> app \<Rightarrow> app" where
  "exec (SelectFile f) s = handleFileSelect f s"
| "exec (StartRecording outcome) s = handleStartRecording outcome s"
| "exec (StartRecordingBegin supported) s = startRecordingBegin supported s"
| "exec (StartRecordingResume fb outcome) s = startRecordingResume fb outcome s"
| "exec StopRecording s = handleStopRecording s"
| "exec (DataAvailable d) s =
     (case mediaRecorderRef s of None \<Rightarrow> s | Some r \<Rightarrow> ondataavailable d s)"
| "exec (OnStop url) s =
     (case mediaRecorderRef s of None \<Rightarrow> s | Some r \<Rightarrow> onstop (stream r) url s)"
| "exec (OnStopOf strm url) s =
     (case mediaRecorderRef s of None \<Rightarrow> s | Some r \<Rightarrow> onstop strm url s)"
| "exec ClearRecording s = handleClearRecording s"
| "exec (TabChange t) s = handleTabChange t s"

fun run :: "call list \<Rightarrow> app \<Rightarrow> app" where
  "run [] s = s"
| "run (c # cs) s = run cs (exec c s)"

subsection \<open>The audio source as the state encodes it\<close>

text \<open>\<open>f\<close> is a \<open>File\<close> made of the recording blob \<open>b\<close>: the same bytes, the same type,
  and a name that begins with \<open>recording.\<close>\<close>

definition isRecordingOf :: "blob \<Rightarrow> js_file \<Rightarrow> bool" where
  "isRecordingOf b f =
     (bytes f = bytes b \<and> type f = type b \<and> startsWith (name f) ''recording.'')"

text \<open>A recording URL never stands alone: when \<open>audioURL\<close> is set, it names a blob of
  the blob-URL store and \<open>audioFile\<close> is a \<open>File\<close> made of that very blob.\<close>

definition sourceInv :: "app \<Rightarrow> bool" where
  "sourceInv s =
     (case audioURL s of
        None \<Rightarrow> True
      | Some u \<Rightarrow>
          (case blobURLs s u of
             None \<Rightarrow> False
           | Some b \<Rightarrow>
               (case audioFile s of None \<Rightarrow> False | Some f \<Rightarrow> isRecordingOf b f)))"

text \<open>The subtype of a media type \<open>type/subtype;parameters\<close>, as the word is used for
  media types: what stands between the first slash and the first semicolon after it.\<close>

definition mimeSubtype :: "string \<Rightarrow> string" where
  "mimeSubtype mt =
     takeWhile (\<lambda>c. c \<noteq> CHR '';'') (drop 1 (dropWhile (\<lambda>c. c \<noteq> CHR ''/'') mt))"

section \<open>Auxiliary facts\<close>

subsection \<open>Strings\<close>

text \<open>The string functions mean what their JavaScript names say.\<close>

lemma startsWith_iff: "startsWith s p \<longleftrightarrow> (\<exists>b. s = p @ b)"
proof
  assume "startsWith s p"
  then have "s = p @ drop (length p) s"
    by (metis startsWith_def append_take_drop_id)
  then show "\<exists>b. s = p @ b" ..
next
  assume "\<exists>b. s = p @ b"
  then show "startsWith s p" by (auto simp: startsWith_def)
qed

lemma includes_str_iff: "includes_str s p \<longleftrightarrow> (\<exists>a b. s = a @ p @ b)"
proof (induction s)
  case Nil
  then show ?case by auto
next
  case (Cons c cs)
  show ?case
  proof
    assume "includes_str (c # cs) p"
    then consider "startsWith (c # cs) p" | "includes_str cs p" by auto
    then show "\<exists>a b. c # cs = a @ p @ b"
    proof cases
      case 1
      then obtain b where "c # cs = p @ b" using startsWith_iff by blast
      then have "c # cs = [] @ p @ b" by simp
      then show ?thesis by blast
    next
      case 2
      then obtain a b where "cs = a @ p @ b" using Cons.IH by blast
      then have "c # cs = (c # a) @ p @ b" by simp
      then show ?thesis by blast
    qed
  next
    assume "\<exists>a b. c # cs = a @ p @ b"
    then obtain a b where ab: "c # cs = a @ p @ b" by blast
    show "includes_str (c # cs) p"
    proof (cases a)
      case Nil
      with ab have "startsWith (c # cs) p" using startsWith_iff by auto
      then show ?thesis by simp
    next
      case (Cons x a')
      with ab have "cs = a' @ p @ b" by simp
      then have "includes_str cs p" using Cons.IH by blast
      then show ?thesis by simp
    qed
  qed
qed

text \<open>\<open>trim\<close> changes a string exactly when the string begins or ends with white
  space.\<close>

lemma trim_id_iff:
  "trim s = s \<longleftrightarrow> s = [] \<or> (\<not> isWhiteSpace (hd s) \<and> \<not> isWhiteSpace (last s))"
proof (cases "s = []")
  case True
  then show ?thesis by (simp add: trim_def)
next
  case False
  show ?thesis
  proof (cases "isWhiteSpace (hd s)")
    case True
    with False have "takeWhile isWhiteSpace s \<noteq> []"
      by (simp add: takeWhile_eq_Nil_iff)
    moreover have "length s = length (takeWhile isWhiteSpace s) + length (dropWhile isWhiteSpace s)"
      by (metis takeWhile_dropWhile_id length_append)
    ultimately have "length (dropWhile isWhiteSpace s) < length s" by simp
    moreover have "length (trim s) \<le> length (dropWhile isWhiteSpace s)"
      unfolding trim_def by (metis length_rev length_dropWhile_le)
    ultimately have "trim s \<noteq> s" by auto
    with True False show ?thesis by simp
  next
    case hd: False
    then have d: "dropWhile isWhiteSpace s = s"
      by (simp add: dropWhile_eq_self_iff)
    have l: "hd (rev s) = last s" using False by (simp add: hd_rev)
    show ?thesis
    proof (cases "isWhiteSpace (last s)")
      case True
      with False l have "dropWhile isWhiteSpace (rev s) \<noteq> rev s"
        by (simp add: dropWhile_eq_self_iff)
      then have "trim s \<noteq> s"
        unfolding trim_def d by (metis rev_rev_ident)
      with True False show ?thesis by simp
    next
      case last: False
      with False l have "dropWhile isWhiteSpace (rev s) = rev s"
        by (simp add: dropWhile_eq_self_iff)
      then have "trim s = s" by (simp add: trim_def d)
      with hd last show ?thesis by simp
    qed
  qed
qed

lemma startsWith_nonempty: "startsWith s p \<Longrightarrow> p \<noteq> [] \<Longrightarrow> s \<noteq> []"
  by (auto simp: startsWith_def)

lemma split_nonempty: "split sep s \<noteq> []"
  by (induction s) (auto split: list.splits)

lemma split_without_sep: "sep \<notin> set s \<Longrightarrow> split sep s = [s]"
  by (induction s) auto

lemma hd_split: "hd (split sep s) = takeWhile (\<lambda>c. c \<noteq> sep) s"
  by (induction s) (auto split: list.splits simp: split_nonempty)

lemma split_at_first_sep: "sep \<notin> set a \<Longrightarrow> split sep (a @ sep # b) = a # split sep b"
  by (induction a) auto

lemma recordingName_no_slash:
  "CHR ''/'' \<notin> set mt \<Longrightarrow> recordingName mt = ''recording.undefined''"
  by (simp add: recordingName_def split_without_sep at_index_def templ_def)

lemma recordingName_slash:
  assumes "CHR ''/'' \<notin> set a"
  shows "recordingName (a @ CHR ''/'' # b) = ''recording.'' @ takeWhile (\<lambda>c. c \<noteq> CHR ''/'') b"
proof -
  have "split (CHR ''/'') (a @ CHR ''/'' # b) = a # split (CHR ''/'') b"
    using assms by (rule split_at_first_sep)
  moreover have "split (CHR ''/'') b \<noteq> []" by (rule split_nonempty)
  ultimately have "at_index (split (CHR ''/'') (a @ CHR ''/'' # b)) 1 = Some (hd (split (CHR ''/'') b))"
    by (cases "split (CHR ''/'') b") (simp_all add: at_index_def)
  then show ?thesis
    by (simp add: recordingName_def templ_def hd_split)
qed

lemma mimeSubtype_slash:
  assumes "CHR ''/'' \<notin> set a"
  shows "mimeSubtype (a @ CHR ''/'' # b) = takeWhile (\<lambda>c. c \<noteq> CHR '';'') b"
proof -
  have "dropWhile (\<lambda>c. c \<noteq> CHR ''/'') (a @ CHR ''/'' # b) = CHR ''/'' # b"
    using assms by (induction a) auto
  then show ?thesis by (simp add: mimeSubtype_def)
qed

lemma toLowerCase_Quota: "toLowerCase ''Quota exceeded'' = ''quota exceeded''"
  by code_simp

lemma startsWith_append: "startsWith (p @ x) p"
  by (simp add: startsWith_def)

lemma normalizeType_webm: "normalizeType ''audio/webm'' = ''audio/webm''"
  by code_simp

lemma normalizeType_webm_opus:
  "normalizeType ''audio/webm;codecs=opus'' = ''audio/webm;codecs=opus''"
  by code_simp

lemma normalizeType_idem: "normalizeType (normalizeType t) = normalizeType t"
proof (cases "list_all (\<lambda>c. 32 \<le> (of_char c :: nat) \<and> (of_char c :: nat) \<le> 126) t")
  case True
  have keep: "32 \<le> (of_char (asciiLower c) :: nat) \<and> (of_char (asciiLower c) :: nat) \<le> 126"
    if "32 \<le> (of_char c :: nat) \<and> (of_char c :: nat) \<le> 126" for c
    using that by (auto simp: asciiLower_def Let_def)
  have low: "asciiLower (asciiLower c) = asciiLower c" for c
    by (auto simp: asciiLower_def Let_def)
  from True have "list_all (\<lambda>c. 32 \<le> (of_char c :: nat) \<and> (of_char c :: nat) \<le> 126) (map asciiLower t)"
    using keep by (auto simp: list_all_iff)
  with True show ?thesis
    by (simp add: normalizeType_def low)
next
  case False
  then show ?thesis by (simp add: normalizeType_def)
qed

lemma userFriendlyMessage_cases:
  "userFriendlyMessage e \<in> {MSG_INVALID_KEY, MSG_QUOTA, MSG_BAD_REQUEST, MSG_GENERIC, MSG_UNKNOWN}"
  by (simp add: userFriendlyMessage_def Let_def split: js_thrown.splits)

subsection \<open>What \<open>handleStopRecording\<close> leaves alone\<close>

lemma handleStopRecording_frame:
  "analysisResult (handleStopRecording s) = analysisResult s"
  "error (handleStopRecording s) = error s"
  "audioURL (handleStopRecording s) = audioURL s"
  "audioFile (handleStopRecording s) = audioFile s"
  "blobURLs (handleStopRecording s) = blobURLs s"
  by (simp_all add: handleStopRecording_def emit_def split: option.splits)

lemma handleStopRecording_noop:
  "\<not> (\<exists>r. mediaRecorderRef s = Some r \<and> state r = Recording) \<Longrightarrow> handleStopRecording s = s"
  by (auto simp: handleStopRecording_def split: option.splits)

lemma handleStopRecording_effects:
  "mediaRecorderRef s = Some r \<Longrightarrow> state r = Recording \<Longrightarrow>
     effects (handleStopRecording s) = effects s @ [RecorderStop]"
  by (simp add: handleStopRecording_def emit_def)

subsection \<open>\<open>handleAnalyze\<close> does not read \<open>audioURL\<close>\<close>

lemma feedback_audioURL:
  "feedback k (s\<lparr>audioURL := u\<rparr>) = (feedback k s)\<lparr>audioURL := u\<rparr>"
  by (simp add: feedback_def)

lemma finalApiKey_audioURL: "finalApiKey env (s\<lparr>audioURL := u\<rparr>) = finalApiKey env s"
  by (simp add: finalApiKey_def split: option.splits)

lemma analyzeTry_audioURL:
  "analyzeTry f2b remote f key (s\<lparr>audioURL := u\<rparr>) =
     (fst (analyzeTry f2b remote f key s)\<lparr>audioURL := u\<rparr>, snd (analyzeTry f2b remote f key s))"
proof (cases "f2b f")
  case (Inl e)
  then show ?thesis by (simp add: analyzeTry_def)
next
  case (Inr p)
  obtain b64 mt where p: "p = (b64, mt)" by (cases p)
  obtain effs res where a: "analyzeVoiceTone remote b64 mt key = (effs, res)"
    by (cases "analyzeVoiceTone remote b64 mt key")
  show ?thesis
  proof (cases res)
    case (Inl e)
    with \<open>f2b f = Inr p\<close> p a show ?thesis by (simp add: analyzeTry_def)
  next
    case (Inr result)
    with \<open>f2b f = Inr p\<close> p a show ?thesis by (simp add: analyzeTry_def feedback_def)
  qed
qed

lemma handleAnalyze_ignores_audioURL:
  "handleAnalyze env f2b remote (s\<lparr>audioURL := u\<rparr>) = (handleAnalyze env f2b remote s)\<lparr>audioURL := u\<rparr>"
proof (cases "audioFile s")
  case None
  then show ?thesis by (simp add: handleAnalyze_def feedback_def)
next
  case (Some f)
  show ?thesis
  proof (cases "finalApiKey env s = []")
    case True
    with Some show ?thesis by (simp add: handleAnalyze_def finalApiKey_audioURL feedback_def)
  next
    case False
    let ?s1 = "s\<lparr>isLoading := True, analysisResult := [], error := []\<rparr>"
    have s1: "s\<lparr>audioURL := u, isLoading := True, analysisResult := [], error := []\<rparr> = ?s1\<lparr>audioURL := u\<rparr>"
      by simp
    obtain s' r where t: "analyzeTry f2b remote f (finalApiKey env s) ?s1 = (s', r)"
      by (cases "analyzeTry f2b remote f (finalApiKey env s) ?s1")
    then have t': "analyzeTry f2b remote f (finalApiKey env s) (?s1\<lparr>audioURL := u\<rparr>) = (s'\<lparr>audioURL := u\<rparr>, r)"
      by (simp add: analyzeTry_audioURL)
    have l: "handleAnalyze env f2b remote (s\<lparr>audioURL := u\<rparr>) =
         (case (s'\<lparr>audioURL := u\<rparr>, r) of
            (s', None) \<Rightarrow> s'
          | (s', Some err) \<Rightarrow>
              feedback ErrorCue
                (s'\<lparr>error := (case err of JsError m \<Rightarrow> m | NonError \<Rightarrow> MSG_UNEXPECTED)\<rparr>))\<lparr>isLoading := False\<rparr>"
      using Some False by (simp add: handleAnalyze_def finalApiKey_audioURL Let_def s1 t')
    have rr: "handleAnalyze env f2b remote s =
         (case (s', r) of
            (s', None) \<Rightarrow> s'
          | (s', Some err) \<Rightarrow>
              feedback ErrorCue
                (s'\<lparr>error := (case err of JsError m \<Rightarrow> m | NonError \<Rightarrow> MSG_UNEXPECTED)\<rparr>))\<lparr>isLoading := False\<rparr>"
      using Some False t by (simp add: handleAnalyze_def Let_def)
    show ?thesis
      unfolding l rr by (cases r) (simp_all add: feedback_def)
  qed
qed

subsection \<open>The invariant of the audio source\<close>

lemma sourceInv_no_url: "audioURL s = None \<Longrightarrow> sourceInv s"
  by (simp add: sourceInv_def)

lemma sourceInv_cong:
  "audioURL t = audioURL s \<Longrightarrow> blobURLs t = blobURLs s \<Longrightarrow> audioFile t = audioFile s \<Longrightarrow>
     sourceInv t = sourceInv s"
  by (simp add: sourceInv_def split: option.splits)

lemma sourceInv_handleStopRecording: "sourceInv (handleStopRecording s) = sourceInv s"
  by (rule sourceInv_cong) (simp_all add: handleStopRecording_frame)

lemma audioURL_handleFileSelect: "audioURL (handleFileSelect f s) = None"
  by (simp add: handleFileSelect_def Let_def handleStopRecording_frame)

lemma source_startRecordingBegin:
  "audioURL (startRecordingBegin supported s) = None"
  "audioFile (startRecordingBegin supported s) = None"
  by (simp_all add: startRecordingBegin_def feedback_def Let_def)

lemma source_startRecordingResume:
  "audioURL (startRecordingResume fb outcome s) = audioURL s"
  "audioFile (startRecordingResume fb outcome s) = audioFile s"
  "blobURLs (startRecordingResume fb outcome s) = blobURLs s"
  by (cases outcome; simp add: startRecordingResume_def micCatch_def playIf_def emit_def)+

lemma source_handleStartRecording:
  "audioURL (handleStartRecording outcome s) = None"
  "audioFile (handleStartRecording outcome s) = None"
  by (simp_all add: handleStartRecording_def source_startRecordingResume
        source_startRecordingBegin)

lemma onstop_file:
  "audioFile (onstop strm url s) =
     Some \<lparr>bytes = concat (map bytes (audioChunksRef s)),
           type = normalizeType (recorderMimeType s),
           name = recordingName (recorderMimeType s)\<rparr>"
  "audioURL (onstop strm url s) = Some url"
  "blobURLs (onstop strm url s) url =
     Some \<lparr>bytes = concat (map bytes (audioChunksRef s)),
           type = normalizeType (recorderMimeType s)\<rparr>"
  by (simp_all add: onstop_def emit_def Let_def newFile_def newBlob_def)

lemma startsWith_recordingName: "startsWith (recordingName mt) ''recording.''"
  unfolding recordingName_def by (rule startsWith_append)

lemma sourceInv_onstop: "sourceInv (onstop strm url s)"
  by (simp add: sourceInv_def onstop_file isRecordingOf_def startsWith_recordingName)

text \<open>The definitions that a run of calls on a given state unfolds to.\<close>

lemmas run_defs =
  initialApp_def mount_def isEnvKeySet_def handleTabChange_def truthy_def
  handleFileSelect_def handleStartRecording_def startRecordingBegin_def
  startRecordingResume_def handleStopRecording_def handleClearRecording_def emit_def
  ondataavailable_def onstop_def recorderMimeType_def newBlob_def newFile_def
  normalizeType_webm normalizeType_webm_opus recordingName_def at_index_def templ_def Let_def

lemma sourceInv_mount: "sourceInv (mount env s) = sourceInv s"
  by (rule sourceInv_cong) (simp_all add: mount_def split: option.splits)

lemma sourceInv_handleTabChange:
  assumes inv: "sourceInv s"
  shows "sourceInv (handleTabChange t s)"
proof -
  define s1 where "s1 = (if t = Record \<and> audioFile s \<noteq> None then handleFileSelect None s else s)"
  define s2 where "s2 = (if t = Upload \<and> (truthy (audioURL s) \<or> isRecording s)
                then handleClearRecording (handleStopRecording s1) else s1)"
  have 1: "sourceInv s1"
    unfolding s1_def using inv by (simp add: sourceInv_no_url audioURL_handleFileSelect)
  have 2: "sourceInv s2"
    unfolding s2_def using 1 by (simp add: sourceInv_no_url handleClearRecording_def)
  have e: "handleTabChange t s = s2\<lparr>activeTab := t\<rparr>"
    unfolding handleTabChange_def Let_def s1_def s2_def by (rule refl)
  have "sourceInv (s2\<lparr>activeTab := t\<rparr>) = sourceInv s2"
    by (rule sourceInv_cong) simp_all
  with 2 e show ?thesis by simp
qed

lemma sourceInv_exec: "sourceInv s \<Longrightarrow> sourceInv (exec c s)"
proof (cases c)
  case (SelectFile f)
  then show ?thesis by (simp add: sourceInv_no_url audioURL_handleFileSelect)
next
  case (StartRecording outcome)
  then show ?thesis by (simp add: sourceInv_no_url source_handleStartRecording)
next
  case (StartRecordingBegin supported)
  then show ?thesis by (simp add: sourceInv_no_url source_startRecordingBegin)
next
  case (StartRecordingResume fb outcome)
  assume inv: "sourceInv s"
  have "sourceInv (startRecordingResume fb outcome s) = sourceInv s"
    by (rule sourceInv_cong) (simp_all add: source_startRecordingResume)
  with inv StartRecordingResume show ?thesis by simp
next
  case StopRecording
  assume "sourceInv s"
  with StopRecording show ?thesis by (simp add: sourceInv_handleStopRecording)
next
  case (DataAvailable d)
  assume inv: "sourceInv s"
  have "sourceInv (ondataavailable d s) = sourceInv s"
    by (rule sourceInv_cong) (simp_all add: ondataavailable_def)
  with inv DataAvailable show ?thesis by (simp split: option.splits)
next
  case (OnStop url)
  assume "sourceInv s"
  with OnStop show ?thesis by (simp add: sourceInv_onstop split: option.splits)
next
  case (OnStopOf strm url)
  assume "sourceInv s"
  with OnStopOf show ?thesis by (simp add: sourceInv_onstop split: option.splits)
next
  case ClearRecording
  then show ?thesis by (simp add: sourceInv_no_url handleClearRecording_def)
next
  case (TabChange t)
  assume "sourceInv s"
  with TabChange show ?thesis by (simp add: sourceInv_handleTabChange)
qed

lemma sourceInv_run: "sourceInv s \<Longrightarrow> sourceInv (run cs s)"
  by (induction cs arbitrary: s) (simp_all add: sourceInv_exec)

section \<open>The claims\<close>

subsection \<open>Analyze without an audio file\<close>

text \<open>
  C4. When \<open>handleAnalyze\<close> runs and no audio file is selected, \<open>error\<close> becomes the
  missing-input message, the error cue is played exactly when the audio-feedback
  preference is on, and nothing else changes: \<open>analysisResult\<close>, \<open>isLoading\<close> and
  \<open>apiKey\<close> keep their values and the trace of effects gains no call of the remote
  endpoint, whatever the helper and the endpoint would have answered.
\<close>

theorem handleAnalyze_missing_input:
  assumes "audioFile s = None"
  shows "handleAnalyze env f2b remote s =
           s\<lparr>error := MSG_MISSING_INPUT,
              effects := effects s @
                (if isAudioFeedbackEnabled s then [PlayAudioFeedback ErrorCue] else [])\<rparr>"
  using assms by (simp add: handleAnalyze_def feedback_def)

text \<open>The first render has no audio file; Analyze there sets the message and plays the
  error cue.\<close>

theorem handleAnalyze_missing_input_witness:
  "audioFile (initialApp True Map.empty) = None \<and>
   handleAnalyze None (\<lambda>f. Inr (''QUJD'', type f)) (Responds ''calm'') (initialApp True Map.empty) =
     (initialApp True Map.empty)\<lparr>error := MSG_MISSING_INPUT, effects := [PlayAudioFeedback ErrorCue]\<rparr>"
  using handleAnalyze_missing_input
    [of "initialApp True Map.empty" None "\<lambda>f. Inr (''QUJD'', type f)" "Responds ''calm''"]
  by (simp add: initialApp_def)

subsection \<open>Saving the API key\<close>

text \<open>
  C6. For a key whose trimmed form is empty or does not start with \<open>AIza\<close>,
  \<open>validateApiKey\<close> returns false and sets \<open>apiKeyError\<close> to a fixed message (one for
  the empty key, one for the wrong prefix); \<open>handleApiKeySave\<close> in a state holding that
  key changes nothing but \<open>apiKeyError\<close>: \<open>localStorage\<close> is not written and
  \<open>isKeySaved\<close> keeps its value.
\<close>

theorem handleApiKeySave_rejects_bad_key:
  assumes "trim key = [] \<or> \<not> startsWith (trim key) ''AIza''"
  shows "validateApiKey key s =
           (False, s\<lparr>apiKeyError := (if trim key = [] then KEY_EMPTY else KEY_FORMAT)\<rparr>) \<and>
         handleApiKeySave (s\<lparr>apiKey := key\<rparr>) =
           s\<lparr>apiKey := key, apiKeyError := (if trim key = [] then KEY_EMPTY else KEY_FORMAT)\<rparr> \<and>
         localStorage (handleApiKeySave (s\<lparr>apiKey := key\<rparr>)) = localStorage s \<and>
         isKeySaved (handleApiKeySave (s\<lparr>apiKey := key\<rparr>)) = isKeySaved s"
  using assms by (auto simp: validateApiKey_def handleApiKeySave_def)

text \<open>A key of another provider is refused and nothing is stored; so is a key of
  blanks.\<close>

theorem handleApiKeySave_rejects_bad_key_witness:
  "validateApiKey ''sk-12345'' (initialApp True Map.empty) =
     (False, (initialApp True Map.empty)\<lparr>apiKeyError := KEY_FORMAT\<rparr>) \<and>
   localStorage (handleApiKeySave ((initialApp True Map.empty)\<lparr>apiKey := ''sk-12345''\<rparr>))
     ''GEMINI_API_KEY'' = None \<and>
   isKeySaved (handleApiKeySave ((initialApp True Map.empty)\<lparr>apiKey := ''sk-12345''\<rparr>)) = False \<and>
   validateApiKey ''  '' (initialApp True Map.empty) =
     (False, (initialApp True Map.empty)\<lparr>apiKeyError := KEY_EMPTY\<rparr>)"
proof -
  have t: "trim ''sk-12345'' = ''sk-12345''"
    by (simp add: trim_def isWhiteSpace_def)
  have h: "trim ''sk-12345'' = [] \<or> \<not> startsWith (trim ''sk-12345'') ''AIza''"
    by (simp add: t startsWith_def)
  have t': "trim ''  '' = []"
    by (simp add: trim_def isWhiteSpace_def)
  have h': "trim ''  '' = [] \<or> \<not> startsWith (trim ''  '') ''AIza''"
    by (simp add: t')
  show ?thesis
    using handleApiKeySave_rejects_bad_key [OF h, of "initialApp True Map.empty"]
          handleApiKeySave_rejects_bad_key [OF h', of "initialApp True Map.empty"]
    by (simp add: t t' initialApp_def)
qed

text \<open>
  C9. For a key that begins or ends with white space and whose trimmed form starts
  with \<open>AIza\<close>, validation succeeds and \<open>handleApiKeySave\<close> stores the key as typed,
  white space included, under \<open>GEMINI_API_KEY\<close>: what is stored is not the trimmed key.
  The key is marked as saved and \<open>apiKeyError\<close> is cleared.
\<close>

theorem handleApiKeySave_persists_untrimmed:
  assumes "startsWith (trim key) ''AIza''"
    and "isWhiteSpace (hd key) \<or> isWhiteSpace (last key)"
  shows "fst (validateApiKey key s) \<and>
         handleApiKeySave (s\<lparr>apiKey := key\<rparr>) =
           s\<lparr>apiKey := key, localStorage := (localStorage s)(''GEMINI_API_KEY'' \<mapsto> key),
              isKeySaved := True, apiKeyError := []\<rparr> \<and>
         localStorage (handleApiKeySave (s\<lparr>apiKey := key\<rparr>)) ''GEMINI_API_KEY'' = Some key \<and>
         trim key \<noteq> key \<and>
         localStorage (handleApiKeySave (s\<lparr>apiKey := key\<rparr>)) ''GEMINI_API_KEY'' \<noteq> Some (trim key)"
proof -
  have ne: "trim key \<noteq> []"
    using assms(1) startsWith_nonempty by fastforce
  then have "key \<noteq> []"
    by (auto simp: trim_def)
  with assms(2) have raw: "trim key \<noteq> key"
    by (simp add: trim_id_iff)
  show ?thesis
    using assms(1) ne raw by (simp add: validateApiKey_def handleApiKeySave_def)
qed

text \<open>A key pasted with a blank on either side is stored with both blanks.\<close>

theorem handleApiKeySave_persists_untrimmed_witness:
  "trim '' AIzaSyD9 '' = ''AIzaSyD9'' \<and>
   localStorage (handleApiKeySave ((initialApp True Map.empty)\<lparr>apiKey := '' AIzaSyD9 ''\<rparr>))
     ''GEMINI_API_KEY'' = Some '' AIzaSyD9 '' \<and>
   isKeySaved (handleApiKeySave ((initialApp True Map.empty)\<lparr>apiKey := '' AIzaSyD9 ''\<rparr>))"
proof -
  have t: "trim '' AIzaSyD9 '' = ''AIzaSyD9''"
    by (simp add: trim_def isWhiteSpace_def)
  have h1: "startsWith (trim '' AIzaSyD9 '') ''AIza''"
    by (simp add: t startsWith_def)
  have h2: "isWhiteSpace (hd '' AIzaSyD9 '') \<or> isWhiteSpace (last '' AIzaSyD9 '')"
    by (simp add: isWhiteSpace_def)
  show ?thesis
    using handleApiKeySave_persists_untrimmed [OF h1 h2, of "initialApp True Map.empty"]
    by (simp add: t)
qed

subsection \<open>Microphone permission denied\<close>

text \<open>
  C7, as the code has it. When \<open>getUserMedia\<close> rejects, \<open>handleStartRecording\<close> sets
  \<open>error\<close> to the fixed message that contains \<open>Microphone access was denied\<close>, logs
  the failure, and plays the error cue exactly when the audio-feedback preference is
  on. It creates no recording session: no \<open>MediaRecorder\<close> is built and
  \<open>mediaRecorderRef\<close>, \<open>isRecording\<close> and \<open>audioChunksRef\<close> keep their values. Besides,
  the handler has reset \<open>analysisResult\<close>, \<open>audioFile\<close> and \<open>audioURL\<close>.
\<close>

theorem handleStartRecording_denied:
  "handleStartRecording (Rejected e) s =
     s\<lparr>error := MIC_DENIED, analysisResult := [], audioFile := None, audioURL := None,
        effects := effects s @ [ConsoleError ''Error accessing microphone:''] @
                   (if isAudioFeedbackEnabled s then [PlayAudioFeedback ErrorCue] else [])\<rparr> \<and>
   includes_str MIC_DENIED ''Microphone access was denied'' \<and>
   mediaRecorderRef (handleStartRecording (Rejected e) s) = mediaRecorderRef s \<and>
   isRecording (handleStartRecording (Rejected e) s) = isRecording s \<and>
   audioChunksRef (handleStartRecording (Rejected e) s) = audioChunksRef s"
proof -
  have eq: "handleStartRecording (Rejected e) s =
     s\<lparr>error := MIC_DENIED, analysisResult := [], audioFile := None, audioURL := None,
        effects := effects s @ [ConsoleError ''Error accessing microphone:''] @
                   (if isAudioFeedbackEnabled s then [PlayAudioFeedback ErrorCue] else [])\<rparr>"
    by (simp add: handleStartRecording_def startRecordingBegin_def startRecordingResume_def
          micCatch_def playIf_def emit_def Let_def)
  have msg: "includes_str MIC_DENIED ''Microphone access was denied''"
    by (simp add: MIC_DENIED_def startsWith_def)
  from eq msg show ?thesis by simp
qed

text \<open>With the preference on, a refused prompt leaves the error message, one console
  line and one error cue, and no recorder.\<close>

theorem handleStartRecording_denied_witness:
  "error (handleStartRecording (Rejected (JsError ''Permission denied'')) (initialApp True Map.empty)) =
     MIC_DENIED \<and>
   effects (handleStartRecording (Rejected (JsError ''Permission denied'')) (initialApp True Map.empty)) =
     [ConsoleError ''Error accessing microphone:'', PlayAudioFeedback ErrorCue] \<and>
   mediaRecorderRef (handleStartRecording (Rejected (JsError ''Permission denied''))
     (initialApp True Map.empty)) = None \<and>
   isRecording (handleStartRecording (Rejected (JsError ''Permission denied''))
     (initialApp True Map.empty)) = False"
  using handleStartRecording_denied [of "JsError ''Permission denied''" "initialApp True Map.empty"]
  by (simp add: initialApp_def)

text \<open>With the preference off, the same refusal plays no cue: the only effect is the
  console line.\<close>

theorem handleStartRecording_denied_silent:
  "error (handleStartRecording (Rejected (JsError ''Permission denied'')) (initialApp False Map.empty)) =
     MIC_DENIED \<and>
   effects (handleStartRecording (Rejected (JsError ''Permission denied'')) (initialApp False Map.empty)) =
     [ConsoleError ''Error accessing microphone:''] \<and>
   PlayAudioFeedback ErrorCue \<notin>
     set (effects (handleStartRecording (Rejected (JsError ''Permission denied''))
       (initialApp False Map.empty)))"
  by (simp add: handleStartRecording_def startRecordingBegin_def startRecordingResume_def
        micCatch_def playIf_def emit_def Let_def initialApp_def)

subsection \<open>Selecting no file when none is selected\<close>

text \<open>
  C8, as the code has it. \<open>handleFileSelect(null)\<close> in a state without a file keeps
  \<open>audioFile\<close> null, resets \<open>analysisResult\<close> and \<open>error\<close> to the empty string and
  \<open>audioURL\<close> to null, and stops the recorder when a recorder exists and \<open>isRecording\<close>
  holds; every other field keeps its value. The call leaves the state as it was exactly
  when \<open>analysisResult\<close> and \<open>error\<close> are empty, \<open>audioURL\<close> is null and no recording is
  in progress.
\<close>

theorem handleFileSelect_null_without_file:
  assumes "audioFile s = None"
  shows "handleFileSelect None s =
           (if mediaRecorderRef s \<noteq> None \<and> isRecording s
            then handleStopRecording (s\<lparr>analysisResult := [], error := [], audioURL := None\<rparr>)
            else s\<lparr>analysisResult := [], error := [], audioURL := None\<rparr>) \<and>
         ((handleFileSelect None s = s) =
            (analysisResult s = [] \<and> error s = [] \<and> audioURL s = None \<and>
             \<not> (isRecording s \<and> (\<exists>r. mediaRecorderRef s = Some r \<and> state r = Recording))))"
proof -
  let ?c = "s\<lparr>analysisResult := [], error := [], audioURL := None\<rparr>"
  have c: "s\<lparr>audioFile := None, analysisResult := [], error := [], audioURL := None\<rparr> = ?c"
    using assms by simp
  have eq: "handleFileSelect None s =
           (if mediaRecorderRef s \<noteq> None \<and> isRecording s then handleStopRecording ?c else ?c)"
    by (simp add: handleFileSelect_def Let_def c)
  have iff: "(handleFileSelect None s = s) =
            (analysisResult s = [] \<and> error s = [] \<and> audioURL s = None \<and>
             \<not> (isRecording s \<and> (\<exists>r. mediaRecorderRef s = Some r \<and> state r = Recording)))"
  proof
    assume h: "handleFileSelect None s = s"
    have a: "analysisResult (handleFileSelect None s) = []"
      by (simp add: eq handleStopRecording_frame)
    have b: "error (handleFileSelect None s) = []"
      by (simp add: eq handleStopRecording_frame)
    have u: "audioURL (handleFileSelect None s) = None"
      by (simp add: eq handleStopRecording_frame)
    have r: "\<not> (isRecording s \<and> (\<exists>r. mediaRecorderRef s = Some r \<and> state r = Recording))"
    proof
      assume "isRecording s \<and> (\<exists>r. mediaRecorderRef s = Some r \<and> state r = Recording)"
      then obtain r where "isRecording s" "mediaRecorderRef s = Some r" "state r = Recording"
        by blast
      then have "effects (handleFileSelect None s) = effects s @ [RecorderStop]"
        by (simp add: eq handleStopRecording_effects)
      with h show False by simp
    qed
    from a b u r h show "analysisResult s = [] \<and> error s = [] \<and> audioURL s = None \<and>
             \<not> (isRecording s \<and> (\<exists>r. mediaRecorderRef s = Some r \<and> state r = Recording))"
      by simp
  next
    assume h: "analysisResult s = [] \<and> error s = [] \<and> audioURL s = None \<and>
             \<not> (isRecording s \<and> (\<exists>r. mediaRecorderRef s = Some r \<and> state r = Recording))"
    then have cs: "?c = s" by simp
    show "handleFileSelect None s = s"
    proof (cases "isRecording s")
      case True
      with h have "\<not> (\<exists>r. mediaRecorderRef s = Some r \<and> state r = Recording)" by simp
      then have "handleStopRecording s = s" by (rule handleStopRecording_noop)
      then show ?thesis by (simp add: eq cs)
    next
      case False
      then show ?thesis by (simp add: eq cs)
    qed
  qed
  from eq iff show ?thesis by blast
qed

text \<open>On the first render, where everything is empty, the call changes nothing.\<close>

theorem handleFileSelect_null_without_file_witness:
  "audioFile (initialApp True Map.empty) = None \<and>
   handleFileSelect None (initialApp True Map.empty) = initialApp True Map.empty"
proof -
  have h: "audioFile (initialApp True Map.empty) = None"
    by (simp add: initialApp_def)
  show ?thesis
    using handleFileSelect_null_without_file [OF h]
    by (simp add: initialApp_def)
qed

text \<open>After an example has been clicked there is still no file, and the example's text
  is shown; \<open>handleFileSelect(null)\<close> then wipes that text.\<close>

theorem handleFileSelect_null_clears_result:
  "audioFile (handleExampleClick ''demo'' (initialApp True Map.empty)) = None \<and>
   analysisResult (handleExampleClick ''demo'' (initialApp True Map.empty)) = ''demo'' \<and>
   analysisResult (handleFileSelect None (handleExampleClick ''demo'' (initialApp True Map.empty))) = []"
  by (simp add: handleExampleClick_def handleFileSelect_def initialApp_def feedback_def)

subsection \<open>A file that is not audio\<close>

text \<open>
  C3, as the code has it. The check of the media type stands in \<open>handleAnalyze\<close>, not in
  \<open>analyzeVoiceTone\<close>. When a file is selected, a key is available and the media type
  that \<open>fileToBase64\<close> yields does not start with \<open>audio/\<close>, \<open>handleAnalyze\<close> sets
  \<open>error\<close> to the invalid-file-type message, plays the error cue when the preference
  is on, and ends with \<open>isLoading\<close> false; the remote endpoint is not called, whatever it
  would have answered. \<open>analyzeVoiceTone\<close> itself refuses only an empty key, before any
  call; with a key it calls the endpoint for every media type.
\<close>

theorem handleAnalyze_rejects_non_audio:
  assumes "audioFile s = Some f" and "f2b f = Inr (dat, mt)"
    and "\<not> startsWith mt ''audio/''" and "finalApiKey env s \<noteq> []"
  shows "handleAnalyze env f2b remote s =
           s\<lparr>isLoading := False, analysisResult := [], error := MSG_INVALID_TYPE,
              effects := effects s @
                (if isAudioFeedbackEnabled s then [PlayAudioFeedback ErrorCue] else [])\<rparr> \<and>
         analyzeVoiceTone remote dat mt [] = ([], Inl (JsError MSG_KEY_REQUIRED)) \<and>
         (key \<noteq> [] \<longrightarrow>
            fst (analyzeVoiceTone remote dat mt key) \<noteq> [] \<and>
            hd (fst (analyzeVoiceTone remote dat mt key)) =
              GenerateContent key ''gemini-2.5-pro'' dat mt)"
  using assms
  by (auto simp: handleAnalyze_def analyzeTry_def feedback_def Let_def analyzeVoiceTone_def
           split: remote_outcome.splits)

text \<open>A text file, with a key typed in: the error is set, the cue is played, and the
  endpoint is not called.\<close>

theorem handleAnalyze_rejects_non_audio_witness:
  "error (handleAnalyze None (\<lambda>f. Inr (''QUJD'', type f)) (Responds ''calm'')
     ((initialApp True Map.empty)
        \<lparr>audioFile := Some \<lparr>bytes = [65, 66, 67], type = ''text/plain'', name = ''notes.txt''\<rparr>,
         apiKey := ''AIzaSyD9''\<rparr>)) = MSG_INVALID_TYPE \<and>
   effects (handleAnalyze None (\<lambda>f. Inr (''QUJD'', type f)) (Responds ''calm'')
     ((initialApp True Map.empty)
        \<lparr>audioFile := Some \<lparr>bytes = [65, 66, 67], type = ''text/plain'', name = ''notes.txt''\<rparr>,
         apiKey := ''AIzaSyD9''\<rparr>)) = [PlayAudioFeedback ErrorCue] \<and>
   hd (fst (analyzeVoiceTone (Responds ''calm'') ''QUJD'' ''text/plain'' ''AIzaSyD9'')) =
     GenerateContent ''AIzaSyD9'' ''gemini-2.5-pro'' ''QUJD'' ''text/plain''"
proof -
  let ?f = "\<lparr>bytes = [65, 66, 67], type = ''text/plain'', name = ''notes.txt''\<rparr>"
  let ?s = "(initialApp True Map.empty)\<lparr>audioFile := Some ?f, apiKey := ''AIzaSyD9''\<rparr>"
  have h1: "audioFile ?s = Some ?f" by simp
  have h3: "\<not> startsWith ''text/plain'' ''audio/''" by (simp add: startsWith_def)
  have h4: "finalApiKey None ?s \<noteq> []" by (simp add: finalApiKey_def)
  have h5: "''AIzaSyD9'' \<noteq> []" by simp
  show ?thesis
    using handleAnalyze_rejects_non_audio
            [where s = ?s and f = ?f and ?f2b = "\<lambda>f. Inr (''QUJD'', type f)"
               and dat = "''QUJD''" and mt = "''text/plain''" and env = None
               and remote = "Responds ''calm''" and key = "''AIzaSyD9''"] h1 h3 h4 h5
    by (simp add: initialApp_def)
qed

text \<open>Called with the media type \<open>text/plain\<close> and a key, \<open>analyzeVoiceTone\<close> calls the
  endpoint and returns its answer.\<close>

theorem analyzeVoiceTone_accepts_non_audio:
  "\<not> startsWith ''text/plain'' ''audio/'' \<and>
   analyzeVoiceTone (Responds ''calm'') ''QUJD'' ''text/plain'' ''AIzaSyD9'' =
     ([GenerateContent ''AIzaSyD9'' ''gemini-2.5-pro'' ''QUJD'' ''text/plain''], Inr ''calm'')"
  by (simp add: analyzeVoiceTone_def startsWith_def trim_def isWhiteSpace_def)

subsection \<open>The message after a remote failure\<close>

text \<open>
  C5, as the code has it. When something is thrown inside the \<open>try\<close> block of
  \<open>analyzeVoiceTone\<close>, the function throws an \<open>Error\<close> whose message is one of five fixed
  sentences. A thrown value that is not an \<open>Error\<close> gives the sentence
  \<open>MSG_UNKNOWN\<close>. For an \<open>Error\<close>, the lower-cased message is searched, in this order:
  \<open>api key not valid\<close> or \<open>permission denied\<close> gives the invalid-key sentence, \<open>quota\<close>
  the quota sentence, \<open>400 bad request\<close> the bad-request sentence, anything else the
  generic sentence. The thrown message is never built from the original one.
\<close>

theorem analyzeVoiceTone_failure_message:
  assumes "key \<noteq> []"
  shows "\<exists>msg. snd (analyzeVoiceTone (Throws e) dat mt key) = Inl (JsError msg) \<and>
           msg \<in> {MSG_INVALID_KEY, MSG_QUOTA, MSG_BAD_REQUEST, MSG_GENERIC, MSG_UNKNOWN} \<and>
           (e = NonError \<longrightarrow> msg = MSG_UNKNOWN) \<and>
           (\<forall>m. e = JsError m \<longrightarrow>
              (if includes_str (toLowerCase m) ''api key not valid'' \<or>
                  includes_str (toLowerCase m) ''permission denied'' then msg = MSG_INVALID_KEY
               else if includes_str (toLowerCase m) ''quota'' then msg = MSG_QUOTA
               else if includes_str (toLowerCase m) ''400 bad request'' then msg = MSG_BAD_REQUEST
               else msg = MSG_GENERIC))"
proof (intro exI conjI)
  show "snd (analyzeVoiceTone (Throws e) dat mt key) = Inl (JsError (userFriendlyMessage e))"
    using assms by (simp add: analyzeVoiceTone_def)
  show "userFriendlyMessage e \<in> {MSG_INVALID_KEY, MSG_QUOTA, MSG_BAD_REQUEST, MSG_GENERIC, MSG_UNKNOWN}"
    by (rule userFriendlyMessage_cases)
  show "e = NonError \<longrightarrow> userFriendlyMessage e = MSG_UNKNOWN"
    by (simp add: userFriendlyMessage_def)
  show "\<forall>m. e = JsError m \<longrightarrow>
          (if includes_str (toLowerCase m) ''api key not valid'' \<or>
              includes_str (toLowerCase m) ''permission denied''
           then userFriendlyMessage e = MSG_INVALID_KEY
           else if includes_str (toLowerCase m) ''quota'' then userFriendlyMessage e = MSG_QUOTA
           else if includes_str (toLowerCase m) ''400 bad request''
                then userFriendlyMessage e = MSG_BAD_REQUEST
                else userFriendlyMessage e = MSG_GENERIC)"
    by (simp add: userFriendlyMessage_def Let_def)
qed

text \<open>An error whose message is \<open>Quota exceeded\<close> gives the quota sentence; a thrown
  value that is not an \<open>Error\<close> gives \<open>MSG_UNKNOWN\<close>.\<close>

theorem analyzeVoiceTone_failure_message_witness:
  "snd (analyzeVoiceTone (Throws (JsError ''Quota exceeded'')) ''QUJD'' ''audio/mpeg'' ''AIzaSyD9'')
     = Inl (JsError MSG_QUOTA) \<and>
   snd (analyzeVoiceTone (Throws NonError) ''QUJD'' ''audio/mpeg'' ''AIzaSyD9'')
     = Inl (JsError MSG_UNKNOWN)"
proof -
  have k: "''AIzaSyD9'' \<noteq> []" by simp
  obtain msg where m: "snd (analyzeVoiceTone (Throws (JsError ''Quota exceeded'')) ''QUJD''
                              ''audio/mpeg'' ''AIzaSyD9'') = Inl (JsError msg)"
    and sel: "\<forall>m. JsError ''Quota exceeded'' = JsError m \<longrightarrow>
              (if includes_str (toLowerCase m) ''api key not valid'' \<or>
                  includes_str (toLowerCase m) ''permission denied'' then msg = MSG_INVALID_KEY
               else if includes_str (toLowerCase m) ''quota'' then msg = MSG_QUOTA
               else if includes_str (toLowerCase m) ''400 bad request'' then msg = MSG_BAD_REQUEST
               else msg = MSG_GENERIC)"
    using analyzeVoiceTone_failure_message
            [OF k, of "JsError ''Quota exceeded''" "''QUJD''" "''audio/mpeg''"]
    by blast
  from sel have "msg = MSG_QUOTA"
    by (simp add: toLowerCase_Quota startsWith_def)
  with m have 1: "snd (analyzeVoiceTone (Throws (JsError ''Quota exceeded'')) ''QUJD''
                         ''audio/mpeg'' ''AIzaSyD9'') = Inl (JsError MSG_QUOTA)"
    by simp
  have 2: "snd (analyzeVoiceTone (Throws NonError) ''QUJD'' ''audio/mpeg'' ''AIzaSyD9'')
             = Inl (JsError MSG_UNKNOWN)"
    using analyzeVoiceTone_failure_message [OF k, of NonError "''QUJD''" "''audio/mpeg''"]
    by auto
  from 1 2 show ?thesis by simp
qed

text \<open>A thrown value that is not an \<open>Error\<close> gives a fifth sentence, none of the four;
  and for the error message \<open>quota\<close> the sentence thrown contains that message.\<close>

theorem analyzeVoiceTone_fifth_sentence:
  "snd (analyzeVoiceTone (Throws NonError) ''QUJD'' ''audio/mpeg'' ''AIzaSyD9'') =
     Inl (JsError MSG_UNKNOWN) \<and>
   MSG_UNKNOWN \<notin> {MSG_INVALID_KEY, MSG_QUOTA, MSG_BAD_REQUEST, MSG_GENERIC} \<and>
   snd (analyzeVoiceTone (Throws (JsError ''quota'')) ''QUJD'' ''audio/mpeg'' ''AIzaSyD9'') =
     Inl (JsError MSG_QUOTA) \<and>
   includes_str MSG_QUOTA ''quota''"
proof (intro conjI)
  show "snd (analyzeVoiceTone (Throws NonError) ''QUJD'' ''audio/mpeg'' ''AIzaSyD9'') =
     Inl (JsError MSG_UNKNOWN)"
    by (simp add: analyzeVoiceTone_def userFriendlyMessage_def)
  show "MSG_UNKNOWN \<notin> {MSG_INVALID_KEY, MSG_QUOTA, MSG_BAD_REQUEST, MSG_GENERIC}"
    by (simp add: MSG_UNKNOWN_def MSG_INVALID_KEY_def MSG_QUOTA_def MSG_BAD_REQUEST_def
          MSG_GENERIC_def)
  show "snd (analyzeVoiceTone (Throws (JsError ''quota'')) ''QUJD'' ''audio/mpeg'' ''AIzaSyD9'') =
     Inl (JsError MSG_QUOTA)"
    by (simp add: analyzeVoiceTone_def userFriendlyMessage_def toLowerCase_def lowerChar_def
          startsWith_def)
  show "includes_str MSG_QUOTA ''quota''"
    by (simp add: MSG_QUOTA_def startsWith_def)
qed

subsection \<open>The file of a finished recording\<close>

text \<open>
  C10, at the input where the code departs from it. The recorder reports the media type
  \<open>audio/webm;codecs=opus\<close>, whose subtype is \<open>webm\<close>. After recording, stopping and the
  recorder's events, the chunk is packaged into one \<open>File\<close> of that type, installed as
  \<open>audioFile\<close>; its name is \<open>recording.webm;codecs=opus\<close>, which is not \<open>recording.\<close>
  followed by the subtype.
\<close>

theorem onstop_name_with_parameters:
  "audioFile (run [TabChange Record, StartRecording (Started 1 ''audio/webm;codecs=opus''), StopRecording,
                   DataAvailable \<lparr>bytes = [26, 69], type = ''audio/webm;codecs=opus''\<rparr>,
                   OnStop ''blob:1''] (initialApp True Map.empty)) =
     Some \<lparr>bytes = [26, 69], type = ''audio/webm;codecs=opus'',
           name = ''recording.webm;codecs=opus''\<rparr> \<and>
   mimeSubtype ''audio/webm;codecs=opus'' = ''webm'' \<and>
   ''recording.webm;codecs=opus'' \<noteq> ''recording.'' @ mimeSubtype ''audio/webm;codecs=opus''"
  by (simp add: run_defs mimeSubtype_def)

subsection \<open>File and recording\<close>

text \<open>
  C1, as the code has it. After \<open>selectFile\<close> the recording URL is null. The part of
  \<open>startRecording\<close> that runs before the permission prompt sets \<open>audioFile\<close> and
  \<open>audioURL\<close> to null, and the part that runs after it changes neither; after
  \<open>clearRecording\<close> both are null; \<open>stopRecording\<close> itself changes neither. The \<open>onstop\<close>
  handler sets both: a finished recording is held as \<open>audioURL\<close> together with
  \<open>audioFile\<close>. So after every sequence of calls, parts of \<open>startRecording\<close> and recorder
  events from the start of the application, in any order, \<open>sourceInv\<close> holds: \<open>audioURL\<close>
  is null, or it names a recording blob and \<open>audioFile\<close> is a \<open>File\<close> with the bytes and
  the type of that blob and a name that begins with \<open>recording.\<close>
\<close>

theorem audio_source_invariant:
  "audioURL (handleFileSelect f s) = None \<and>
   audioFile (startRecordingBegin supported s) = None \<and>
   audioURL (startRecordingBegin supported s) = None \<and>
   audioFile (startRecordingResume fb outcome s) = audioFile s \<and>
   audioURL (startRecordingResume fb outcome s) = audioURL s \<and>
   audioFile (handleClearRecording s) = None \<and>
   audioURL (handleClearRecording s) = None \<and>
   audioFile (handleStopRecording s) = audioFile s \<and>
   audioURL (handleStopRecording s) = audioURL s \<and>
   (sourceInv s \<longrightarrow> sourceInv (run cs s)) \<and>
   (startApp parse env ls = Some start \<longrightarrow>
      sourceInv (run cs start) \<and>
      (audioURL (run cs start) = Some u \<longrightarrow>
         (\<exists>b g. blobURLs (run cs start) u = Some b \<and> audioFile (run cs start) = Some g \<and>
                isRecordingOf b g)))"
proof -
  have fromStart: "sourceInv (run cs start) \<and>
      (audioURL (run cs start) = Some u \<longrightarrow>
         (\<exists>b g. blobURLs (run cs start) u = Some b \<and> audioFile (run cs start) = Some g \<and>
                isRecordingOf b g))"
    if st: "startApp parse env ls = Some start"
  proof -
    from st obtain fb0 where s0: "start = mount env (initialApp fb0 ls)"
      by (auto simp: startApp_def split: option.splits)
    have "sourceInv (initialApp fb0 ls)"
      by (simp add: sourceInv_no_url initialApp_def)
    then have "sourceInv start"
      by (simp add: s0 sourceInv_mount)
    then have inv: "sourceInv (run cs start)"
      by (rule sourceInv_run)
    then show ?thesis
      by (auto simp: sourceInv_def split: option.splits)
  qed
  have calls: "audioURL (handleFileSelect f s) = None"
    "audioFile (startRecordingBegin supported s) = None"
    "audioURL (startRecordingBegin supported s) = None"
    "audioFile (startRecordingResume fb outcome s) = audioFile s"
    "audioURL (startRecordingResume fb outcome s) = audioURL s"
    "audioFile (handleClearRecording s) = None"
    "audioURL (handleClearRecording s) = None"
    "audioFile (handleStopRecording s) = audioFile s"
    "audioURL (handleStopRecording s) = audioURL s"
    by (simp_all add: audioURL_handleFileSelect source_startRecordingBegin
          source_startRecordingResume handleClearRecording_def handleStopRecording_frame)
  have step: "sourceInv s \<longrightarrow> sourceInv (run cs s)"
    using sourceInv_run by blast
  from calls step fromStart show ?thesis by blast
qed

text \<open>With an empty \<open>localStorage\<close>: open the record tab, start recording, grant the
  microphone, stop, let the recorder deliver its data and finish. The URL is set and
  the file is the recording's.\<close>

theorem audio_source_invariant_witness:
  "startApp (\<lambda>v. None) None Map.empty = Some (mount None (initialApp True Map.empty)) \<and>
   sourceInv (mount None (initialApp True Map.empty)) \<and>
   sourceInv (run [TabChange Record, StartRecordingBegin True,
                   StartRecordingResume True (Started 1 ''audio/webm''), StopRecording,
                   DataAvailable \<lparr>bytes = [26, 69], type = ''audio/webm''\<rparr>, OnStop ''blob:1'']
                (mount None (initialApp True Map.empty))) \<and>
   audioURL (run [TabChange Record, StartRecordingBegin True,
                  StartRecordingResume True (Started 1 ''audio/webm''), StopRecording,
                  DataAvailable \<lparr>bytes = [26, 69], type = ''audio/webm''\<rparr>, OnStop ''blob:1'']
                (mount None (initialApp True Map.empty))) = Some ''blob:1'' \<and>
   (\<exists>b g. blobURLs (run [TabChange Record, StartRecordingBegin True,
                  StartRecordingResume True (Started 1 ''audio/webm''), StopRecording,
                  DataAvailable \<lparr>bytes = [26, 69], type = ''audio/webm''\<rparr>, OnStop ''blob:1'']
                (mount None (initialApp True Map.empty))) ''blob:1'' = Some b \<and>
          audioFile (run [TabChange Record, StartRecordingBegin True,
                  StartRecordingResume True (Started 1 ''audio/webm''), StopRecording,
                  DataAvailable \<lparr>bytes = [26, 69], type = ''audio/webm''\<rparr>, OnStop ''blob:1'']
                (mount None (initialApp True Map.empty))) = Some g \<and>
          isRecordingOf b g)"
proof -
  let ?s0 = "mount None (initialApp True Map.empty)"
  let ?cs = "[TabChange Record, StartRecordingBegin True,
              StartRecordingResume True (Started 1 ''audio/webm''), StopRecording,
              DataAvailable \<lparr>bytes = [26, 69], type = ''audio/webm''\<rparr>, OnStop ''blob:1'']"
  have st: "startApp (\<lambda>v. None) None Map.empty = Some ?s0"
    by (simp add: startApp_def initialFeedback_def)
  have i: "sourceInv ?s0"
    by (simp add: sourceInv_def run_defs)
  have u: "audioURL (run ?cs ?s0) = Some ''blob:1''"
    by (simp add: run_defs)
  from st i u
    audio_source_invariant
      [where s = ?s0 and cs = ?cs and start = ?s0 and parse = "\<lambda>v. None" and env = None
         and ls = Map.empty and u = "''blob:1''"]
  show ?thesis by blast
qed

text \<open>Open the record tab, record, stop, one chunk of data, and the recorder finishes:
  \<open>audioFile\<close> and \<open>audioURL\<close> are both set.\<close>

theorem audio_source_not_exclusive:
  "audioFile (run [TabChange Record, StartRecording (Started 1 ''audio/webm''), StopRecording,
                   DataAvailable \<lparr>bytes = [26, 69], type = ''audio/webm''\<rparr>, OnStop ''blob:1'']
                (initialApp True Map.empty)) =
     Some \<lparr>bytes = [26, 69], type = ''audio/webm'', name = ''recording.webm''\<rparr> \<and>
   audioURL (run [TabChange Record, StartRecording (Started 1 ''audio/webm''), StopRecording,
                  DataAvailable \<lparr>bytes = [26, 69], type = ''audio/webm''\<rparr>, OnStop ''blob:1'']
                (initialApp True Map.empty)) = Some ''blob:1''"
  by (simp add: run_defs)

text \<open>A file chosen while the permission prompt is open stays selected when the
  recording starts: the second part of \<open>startRecording\<close> does not reset \<open>audioFile\<close>.\<close>

lemma file_chosen_during_prompt:
  "audioFile (run [TabChange Record, StartRecordingBegin True, TabChange Upload,
                   SelectFile (Some \<lparr>bytes = [73, 68], type = ''audio/mpeg'', name = ''clip.mp3''\<rparr>),
                   StartRecordingResume True (Started 1 ''audio/webm'')]
                (initialApp True Map.empty)) =
     Some \<lparr>bytes = [73, 68], type = ''audio/mpeg'', name = ''clip.mp3''\<rparr> \<and>
   isRecording (run [TabChange Record, StartRecordingBegin True, TabChange Upload,
                   SelectFile (Some \<lparr>bytes = [73, 68], type = ''audio/mpeg'', name = ''clip.mp3''\<rparr>),
                   StartRecordingResume True (Started 1 ''audio/webm'')]
                (initialApp True Map.empty))"
  by (simp add: run_defs feedback_def)

subsection \<open>Switching to the upload tab while recording\<close>

text \<open>
  C2, at the input where the code departs from it. A recording is in progress and the
  user switches to the upload tab. \<open>handleTabChange\<close> stops the recorder and clears
  \<open>audioFile\<close> and \<open>audioURL\<close>; the recorder then delivers its data and its \<open>stop\<close> event,
  and \<open>onstop\<close> sets \<open>audioURL\<close> and \<open>audioFile\<close> to the recording, with the upload tab
  active.
\<close>

theorem tab_switch_while_recording:
  "isRecording (run [TabChange Record, StartRecording (Started 1 ''audio/webm'')] (initialApp True Map.empty)) \<and>
   audioFile (run [TabChange Record, StartRecording (Started 1 ''audio/webm''), TabChange Upload]
                (initialApp True Map.empty)) = None \<and>
   audioURL (run [TabChange Record, StartRecording (Started 1 ''audio/webm''), TabChange Upload]
                (initialApp True Map.empty)) = None \<and>
   activeTab (run [TabChange Record, StartRecording (Started 1 ''audio/webm''), TabChange Upload,
                   DataAvailable \<lparr>bytes = [26, 69], type = ''audio/webm''\<rparr>, OnStop ''blob:1'']
                (initialApp True Map.empty)) = Upload \<and>
   audioURL (run [TabChange Record, StartRecording (Started 1 ''audio/webm''), TabChange Upload,
                   DataAvailable \<lparr>bytes = [26, 69], type = ''audio/webm''\<rparr>, OnStop ''blob:1'']
                (initialApp True Map.empty)) = Some ''blob:1'' \<and>
   audioFile (run [TabChange Record, StartRecording (Started 1 ''audio/webm''), TabChange Upload,
                   DataAvailable \<lparr>bytes = [26, 69], type = ''audio/webm''\<rparr>, OnStop ''blob:1'']
                (initialApp True Map.empty)) =
     Some \<lparr>bytes = [26, 69], type = ''audio/webm'', name = ''recording.webm''\<rparr>"
  by (simp add: run_defs)

end
